theory Spec2Isabelle
  imports Complex_Main "HOL-Library.Word"
begin

section \<open>Values, exceptions and the world of the client\<close>

text \<open>
  A shallow embedding of \<^verbatim>\<open>obs_stuff/takemycutplease.py\<close>.

  Messages are modelled after \<^verbatim>\<open>json.loads\<close>: a value is null, a boolean, an integer,
  a finite float (as a rational), a string, an array or a dict. A dict is an association
  list read with \<open>map_of\<close>. Strings are \<open>string\<close>; only equality and emptiness of
  strings are used by the client.
\<close>

datatype json =
    JNull
  | JBool bool
  | JInt int
  | JFloat rat
  | JStr string
  | JArr "json list"
  | JObj "(string \<times> json) list"

text \<open>
  The exceptions the program can meet. All are subclasses of Python's \<open>Exception\<close>, so
  every \<^verbatim>\<open>except Exception\<close> catches each of them. The three \<open>RuntimeError\<close>s of the
  source carry the values their message is formatted from.
\<close>

datatype exn =
    RequestFailed string json json
  | SceneItemNotFound string string
  | NoProgramScene
  | AttributeError
  | TypeError
  | ValueError
  | TransportError nat

text \<open>
  What one \<^verbatim>\<open>json.loads(await ws.recv())\<close> yields: a decoded message, or an exception
  (closed connection, undecodable text). When the list of frames is used up, \<open>recv\<close>
  blocks for ever.
\<close>

datatype frame = Recv json | RecvFail exn

datatype level = INFO | DEBUG | WARN

type_synonym logline = "level \<times> string \<times> exn option"

text \<open>
  The state the client works on: its request counter \<open>_req_seq\<close>, the frames the server
  will deliver, the payloads handed to \<^verbatim>\<open>ws.send\<close> (oldest first) and the lines printed
  to stderr (oldest first; a line is its level, its fixed text and the exception it
  formats, if any). The session is taken to be open and identified: \<open>ensure_connected\<close>
  does nothing and \<open>send\<close> does not raise.
\<close>

record world =
  req_seq :: nat
  inbox :: "frame list"
  sent :: "json list"
  stderr :: "logline list"

text \<open>
  A computation either does not return (\<open>None\<close>: a \<open>recv\<close> that blocks for ever, or a
  clock with no further reading), or raises (\<open>Inl\<close>), or returns a value (\<open>Inr\<close>),
  and leaves a world.
\<close>

type_synonym 'a io = "world \<Rightarrow> ((exn + 'a) \<times> world) option"

definition return_io :: "'a \<Rightarrow> 'a io" where
  "return_io x w = Some (Inr x, w)"

definition raise_io :: "exn \<Rightarrow> 'a io" where
  "raise_io e w = Some (Inl e, w)"

definition bind_io :: "'a io \<Rightarrow> ('a \<Rightarrow> 'b io) \<Rightarrow> 'b io" where
  "bind_io m f w =
     (case m w of
        None \<Rightarrow> None
      | Some (Inl e, w') \<Rightarrow> Some (Inl e, w')
      | Some (Inr x, w') \<Rightarrow> f x w')"

definition try_io :: "'a io \<Rightarrow> (exn \<Rightarrow> 'a io) \<Rightarrow> 'a io" where
  \<comment> \<open>\<^verbatim>\<open>try: m  except Exception as e: h\<close>\<close>
  "try_io m h w =
     (case m w of
        None \<Rightarrow> None
      | Some (Inl e, w') \<Rightarrow> h e w'
      | Some (Inr x, w') \<Rightarrow> Some (Inr x, w'))"

definition finally_io :: "'a io \<Rightarrow> unit io \<Rightarrow> 'a io" where
  \<comment> \<open>\<^verbatim>\<open>try: m  finally: u\<close>: \<open>u\<close> runs after \<open>m\<close> returned or raised; an exception of
      \<open>u\<close> replaces the outcome of \<open>m\<close>\<close>
  "finally_io m u w =
     (case m w of
        None \<Rightarrow> None
      | Some (r, w') \<Rightarrow>
          (case u w' of
             None \<Rightarrow> None
           | Some (Inl e, w'') \<Rightarrow> Some (Inl e, w'')
           | Some (Inr _, w'') \<Rightarrow> Some (r, w'')))"

definition lift_io :: "exn + 'a \<Rightarrow> 'a io" where
  "lift_io r w = Some (r, w)"

definition print_io :: "level \<Rightarrow> string \<Rightarrow> exn option \<Rightarrow> unit io" where
  "print_io l s e w = Some (Inr (), w\<lparr>stderr := stderr w @ [(l, s, e)]\<rparr>)"

subsection \<open>Python's operations on decoded JSON\<close>

definition dict_get :: "json \<Rightarrow> string \<Rightarrow> json \<Rightarrow> exn + json" where
  \<comment> \<open>\<^verbatim>\<open>x.get(k, default)\<close>: only a dict has \<open>get\<close>\<close>
  "dict_get x k dflt =
     (case x of
        JObj kvs \<Rightarrow> Inr (case map_of kvs k of Some v \<Rightarrow> v | None \<Rightarrow> dflt)
      | _ \<Rightarrow> Inl AttributeError)"

fun truthy :: "json \<Rightarrow> bool" where
  "truthy JNull = False"
| "truthy (JBool b) = b"
| "truthy (JInt n) = (n \<noteq> 0)"
| "truthy (JFloat r) = (r \<noteq> 0)"
| "truthy (JStr s) = (s \<noteq> [])"
| "truthy (JArr xs) = (xs \<noteq> [])"
| "truthy (JObj kvs) = (kvs \<noteq> [])"

definition or_empty_dict :: "json \<Rightarrow> json" where
  \<comment> \<open>\<^verbatim>\<open>x or {}\<close>\<close>
  "or_empty_dict x = (if truthy x then x else JObj [])"

fun py_eq :: "json \<Rightarrow> json \<Rightarrow> bool" where
  \<comment> \<open>\<^verbatim>\<open>==\<close> on scalars: numbers compare by value, a boolean is the number 0 or 1\<close>
  "py_eq (JBool a) (JInt n) = ((if a then 1 else 0) = n)"
| "py_eq (JInt n) (JBool a) = ((if a then 1 else 0) = n)"
| "py_eq (JBool a) (JFloat r) = ((if a then 1 else 0) = r)"
| "py_eq (JFloat r) (JBool a) = ((if a then 1 else 0) = r)"
| "py_eq (JInt n) (JFloat r) = (of_int n = r)"
| "py_eq (JFloat r) (JInt n) = (of_int n = r)"
| "py_eq x y = (x = y)"

definition is_space :: "char \<Rightarrow> bool" where
  "is_space c = (c \<in> set [CHR '' '', CHR 0x09, CHR 0x0A, CHR 0x0B, CHR 0x0C, CHR 0x0D])"

definition is_digit :: "char \<Rightarrow> bool" where
  "is_digit c = (48 \<le> (of_char c :: nat) \<and> (of_char c :: nat) \<le> 57)"

definition digit_val :: "char \<Rightarrow> nat" where
  "digit_val c = of_char c - 48"

fun digits_value :: "nat \<Rightarrow> string \<Rightarrow> nat option" where
  \<comment> \<open>digits, single underscores allowed between two digits; called after a digit\<close>
  "digits_value acc [] = Some acc"
| "digits_value acc [c] = (if is_digit c then Some (acc * 10 + digit_val c) else None)"
| "digits_value acc (c # d # cs) =
     (if is_digit c then digits_value (acc * 10 + digit_val c) (d # cs)
      else if c = CHR ''_'' \<and> is_digit d then digits_value acc (d # cs)
      else None)"

definition unsigned_value :: "string \<Rightarrow> nat option" where
  "unsigned_value s =
     (case s of
        [] \<Rightarrow> None
      | c # cs \<Rightarrow> if is_digit c then digits_value 0 (c # cs) else None)"

definition strip :: "string \<Rightarrow> string" where
  "strip s = rev (dropWhile is_space (rev (dropWhile is_space s)))"

definition int_of_str :: "string \<Rightarrow> exn + int" where
  \<comment> \<open>\<^verbatim>\<open>int(s)\<close> for a string, base 10\<close>
  "int_of_str s =
     (case strip s of
        [] \<Rightarrow> Inl ValueError
      | c # cs \<Rightarrow>
          (if c = CHR ''-'' then
             (case unsigned_value cs of None \<Rightarrow> Inl ValueError | Some n \<Rightarrow> Inr (- int n))
           else if c = CHR ''+'' then
             (case unsigned_value cs of None \<Rightarrow> Inl ValueError | Some n \<Rightarrow> Inr (int n))
           else
             (case unsigned_value (c # cs) of None \<Rightarrow> Inl ValueError | Some n \<Rightarrow> Inr (int n))))"

fun py_int :: "json \<Rightarrow> exn + int" where
  \<comment> \<open>\<^verbatim>\<open>int(x)\<close>: a float is truncated towards zero\<close>
  "py_int (JInt n) = Inr n"
| "py_int (JBool b) = Inr (if b then 1 else 0)"
| "py_int (JFloat r) = Inr (if 0 \<le> r then \<lfloor>r\<rfloor> else \<lceil>r\<rceil>)"
| "py_int (JStr s) = int_of_str s"
| "py_int JNull = Inl TypeError"
| "py_int (JArr xs) = Inl TypeError"
| "py_int (JObj kvs) = Inl TypeError"

definition digit_char :: "nat \<Rightarrow> char" where
  "digit_char d = char_of (48 + d)"

fun str_nat :: "nat \<Rightarrow> string" where
  \<comment> \<open>the decimal text an f-string gives for a non-negative integer\<close>
  "str_nat n = (if n < 10 then [digit_char n] else str_nat (n div 10) @ [digit_char (n mod 10)])"

declare str_nat.simps [simp del]

section \<open>ObsClient\<close>

definition mk_request_id :: "string \<Rightarrow> string io" where
  \<comment> \<open>\<open>_mk_request_id\<close>\<close>
  "mk_request_id prefix w =
     (let w' = w\<lparr>req_seq := req_seq w + 1\<rparr>;
          p = (if prefix \<noteq> [] \<and> prefix \<noteq> ''1'' then prefix else ''req'')
      in Some (Inr (p @ ''-'' @ str_nat (req_seq w')), w'))"

definition check_response :: "string \<Rightarrow> json \<Rightarrow> exn + json" where
  \<comment> \<open>the end of the receive loop of \<open>request\<close>, for a matched response \<open>d\<close>\<close>
  "check_response request_type d =
     (case dict_get d ''requestStatus'' (JObj []) of
        Inl e \<Rightarrow> Inl e
      | Inr status \<Rightarrow>
          (case dict_get status ''result'' JNull of
             Inl e \<Rightarrow> Inl e
           | Inr res \<Rightarrow>
               if res \<noteq> JBool True then
                 (case dict_get status ''code'' JNull of
                    Inl e \<Rightarrow> Inl e
                  | Inr code \<Rightarrow>
                      (case dict_get status ''comment'' (JStr []) of
                         Inl e \<Rightarrow> Inl e
                       | Inr comment \<Rightarrow> Inl (RequestFailed request_type code comment)))
               else Inr d))"

fun await_response :: "string \<Rightarrow> string \<Rightarrow> frame list \<Rightarrow> ((exn + json) \<times> frame list) option" where
  \<comment> \<open>the \<^verbatim>\<open>while True\<close> of \<open>request\<close>: the outcome and the frames left\<close>
  "await_response request_type rid [] = None"
| "await_response request_type rid (RecvFail e # fs) = Some (Inl e, fs)"
| "await_response request_type rid (Recv msg # fs) =
     (case dict_get msg ''op'' JNull of
        Inl e \<Rightarrow> Some (Inl e, fs)
      | Inr op \<Rightarrow>
          if \<not> py_eq op (JInt 7) then await_response request_type rid fs
          else
            (case dict_get msg ''d'' (JObj []) of
               Inl e \<Rightarrow> Some (Inl e, fs)
             | Inr d \<Rightarrow>
                 (case dict_get d ''requestId'' JNull of
                    Inl e \<Rightarrow> Some (Inl e, fs)
                  | Inr i \<Rightarrow>
                      if i \<noteq> JStr rid then await_response request_type rid fs
                      else Some (check_response request_type d, fs))))"

definition request_payload :: "string \<Rightarrow> json option \<Rightarrow> string \<Rightarrow> json" where
  "request_payload request_type request_data rid =
     JObj [(''op'', JInt 6),
           (''d'', JObj ([(''requestType'', JStr request_type), (''requestId'', JStr rid)] @
                         (case request_data of
                            None \<Rightarrow> []
                          | Some rd \<Rightarrow> [(''requestData'', rd)])))]"

definition request :: "string \<Rightarrow> json option \<Rightarrow> string \<Rightarrow> json io" where
  "request request_type request_data req_id =
     bind_io (mk_request_id req_id) (\<lambda>rid w.
       let w1 = w\<lparr>sent := sent w @ [request_payload request_type request_data rid]\<rparr>
       in (case await_response request_type rid (inbox w1) of
             None \<Rightarrow> None
           | Some (r, fs) \<Rightarrow> Some (r, w1\<lparr>inbox := fs\<rparr>)))"

section \<open>The remote operations\<close>

definition get_scene_item_id :: "string \<Rightarrow> string \<Rightarrow> string \<Rightarrow> int io" where
  "get_scene_item_id scene_name source_name req_id =
     bind_io (request ''GetSceneItemId''
                (Some (JObj [(''sceneName'', JStr scene_name), (''sourceName'', JStr source_name)]))
                req_id) (\<lambda>resp.
     bind_io (lift_io (dict_get resp ''responseData'' (JObj []))) (\<lambda>rd.
     bind_io (lift_io (dict_get rd ''sceneItemId'' JNull)) (\<lambda>sid.
       if sid = JNull then raise_io (SceneItemNotFound source_name scene_name)
       else lift_io (py_int sid))))"

definition set_scene_item_enabled :: "string \<Rightarrow> int \<Rightarrow> bool \<Rightarrow> string \<Rightarrow> unit io" where
  "set_scene_item_enabled scene_name scene_item_id enabled req_id =
     bind_io (request ''SetSceneItemEnabled''
                (Some (JObj [(''sceneName'', JStr scene_name),
                             (''sceneItemId'', JInt scene_item_id),
                             (''sceneItemEnabled'', JBool enabled)]))
                req_id) (\<lambda>_. return_io ())"

definition str_or_none :: "json \<Rightarrow> string option" where
  \<comment> \<open>\<^verbatim>\<open>name if (isinstance(name, str) and name) else None\<close>\<close>
  "str_or_none x = (case x of JStr s \<Rightarrow> (if s \<noteq> [] then Some s else None) | _ \<Rightarrow> None)"

definition int_or_none :: "json \<Rightarrow> exn + int option" where
  \<comment> \<open>\<^verbatim>\<open>int(x) if x is not None else None\<close>\<close>
  "int_or_none x =
     (if x = JNull then Inr None
      else (case py_int x of Inl e \<Rightarrow> Inl e | Inr n \<Rightarrow> Inr (Some n)))"

definition get_scene_transition_override :: "json \<Rightarrow> string \<Rightarrow> (string option \<times> int option) io" where
  "get_scene_transition_override scene_name req_id =
     bind_io (request ''GetSceneSceneTransitionOverride''
                (Some (JObj [(''sceneName'', scene_name)])) req_id) (\<lambda>resp.
     bind_io (lift_io (dict_get resp ''responseData'' (JObj []))) (\<lambda>rd.
     bind_io (lift_io (dict_get rd ''transitionName'' JNull)) (\<lambda>name.
     bind_io (lift_io (dict_get rd ''transitionDuration'' JNull)) (\<lambda>dur.
     bind_io (lift_io (int_or_none dur)) (\<lambda>dur_out.
       return_io (str_or_none name, dur_out))))))"

definition json_of_str_option :: "string option \<Rightarrow> json" where
  "json_of_str_option x = (case x of None \<Rightarrow> JNull | Some s \<Rightarrow> JStr s)"

definition json_of_int_option :: "int option \<Rightarrow> json" where
  "json_of_int_option x = (case x of None \<Rightarrow> JNull | Some n \<Rightarrow> JInt n)"

definition set_scene_transition_override ::
    "json \<Rightarrow> string option \<Rightarrow> int option \<Rightarrow> string \<Rightarrow> unit io" where
  "set_scene_transition_override scene_name transition_name transition_duration req_id =
     bind_io (request ''SetSceneSceneTransitionOverride''
                (Some (JObj [(''sceneName'', scene_name),
                             (''transitionName'', json_of_str_option transition_name),
                             (''transitionDuration'', json_of_int_option transition_duration)]))
                req_id) (\<lambda>_. return_io ())"

definition try_force_cut_transition :: "(json \<times> int option) io" where
  "try_force_cut_transition =
     try_io
       (bind_io (request ''GetCurrentSceneTransition'' None ''getTrans'') (\<lambda>resp.
        bind_io (lift_io (dict_get resp ''responseData'' (JObj []))) (\<lambda>rd.
        bind_io (lift_io (dict_get rd ''transitionName'' JNull)) (\<lambda>saved_name.
        bind_io (request ''GetCurrentSceneTransitionDuration'' None ''getTransDur'') (\<lambda>resp2.
        bind_io (lift_io (dict_get resp2 ''responseData'' (JObj []))) (\<lambda>rd2.
        bind_io (lift_io (dict_get rd2 ''transitionDuration'' JNull)) (\<lambda>saved_dur.
        bind_io (lift_io (int_or_none saved_dur)) (\<lambda>saved_dur_ms.
        bind_io (try_io
                   (bind_io (request ''SetCurrentSceneTransition''
                               (Some (JObj [(''transitionName'', JStr ''Cut'')])) ''setCut'')
                      (\<lambda>_. return_io ()))
                   (\<lambda>e. print_io DEBUG ''Couldn't set transition to Cut'' (Some e))) (\<lambda>_.
        bind_io (try_io
                   (bind_io (request ''SetCurrentSceneTransitionDuration''
                               (Some (JObj [(''transitionDuration'', JInt 0)])) ''setCutDur'')
                      (\<lambda>_. return_io ()))
                   (\<lambda>e. print_io DEBUG ''Couldn't set Cut duration'' (Some e))) (\<lambda>_.
          return_io (saved_name, saved_dur_ms)))))))))))
       (\<lambda>e. bind_io (print_io DEBUG ''Transition save/force cut failed'' (Some e)) (\<lambda>_.
            return_io (JNull, None)))"

definition restore_transition :: "json \<times> int option \<Rightarrow> unit io" where
  "restore_transition saved =
     (case saved of (name, dur_ms) \<Rightarrow>
        if \<not> truthy name \<and> dur_ms = None then return_io ()
        else
          try_io
            (bind_io (if truthy name then
                        bind_io (request ''SetCurrentSceneTransition''
                                   (Some (JObj [(''transitionName'', name)])) ''restoreTrans'')
                          (\<lambda>_. return_io ())
                      else return_io ()) (\<lambda>_.
               (case dur_ms of
                  Some d \<Rightarrow>
                    bind_io (request ''SetCurrentSceneTransitionDuration''
                               (Some (JObj [(''transitionDuration'', JInt d)])) ''restoreDur'')
                      (\<lambda>_. return_io ())
                | None \<Rightarrow> return_io ())))
            (\<lambda>e. print_io DEBUG ''Transition restore failed (ignored)'' (Some e)))"

definition int_or_none_caught :: "json \<Rightarrow> int option" where
  \<comment> \<open>\<^verbatim>\<open>try: int(x) if x is not None else None  except Exception: None\<close>\<close>
  "int_or_none_caught x = (case int_or_none x of Inl e \<Rightarrow> None | Inr r \<Rightarrow> r)"

definition get_media_status :: "string \<Rightarrow> (json \<times> int option \<times> int option) io" where
  "get_media_status input_name =
     bind_io (request ''GetMediaInputStatus'' (Some (JObj [(''inputName'', JStr input_name)]))
                ''getMedia'') (\<lambda>resp.
     bind_io (lift_io (dict_get resp ''responseData'' (JObj []))) (\<lambda>rd0.
     let rd = or_empty_dict rd0 in
     bind_io (lift_io (dict_get rd ''mediaState'' JNull)) (\<lambda>state.
     bind_io (lift_io (dict_get rd ''mediaCursor'' JNull)) (\<lambda>cursor.
     bind_io (lift_io (dict_get rd ''mediaDuration'' JNull)) (\<lambda>dur.
       return_io (state, int_or_none_caught cursor, int_or_none_caught dur))))))"

section \<open>The playback completion watcher\<close>

text \<open>
  Time is read from the event loop's monotonic clock. The readings are modelled as exact
  rationals, and the clock as the list of the readings the successive calls of
  \<^verbatim>\<open>loop.time()\<close> give; \<^verbatim>\<open>asyncio.sleep\<close> only lets time pass. A clock with no reading
  left stands for a run that is observed no further.
\<close>

definition active_states :: "string list" where
  "active_states =
     [''OBS_WEBSOCKET_MEDIA_INPUT_STATE_OPENING'',
      ''OBS_WEBSOCKET_MEDIA_INPUT_STATE_BUFFERING'',
      ''OBS_WEBSOCKET_MEDIA_INPUT_STATE_PLAYING'',
      ''OBS_MEDIA_STATE_OPENING'',
      ''OBS_MEDIA_STATE_BUFFERING'',
      ''OBS_MEDIA_STATE_PLAYING'']"

definition in_active_states :: "json \<Rightarrow> exn + bool" where
  \<comment> \<open>\<^verbatim>\<open>state in active_states\<close>: a list or a dict is unhashable\<close>
  "in_active_states state =
     (case state of
        JStr s \<Rightarrow> Inr (s \<in> set active_states)
      | JArr xs \<Rightarrow> Inl TypeError
      | JObj kvs \<Rightarrow> Inl TypeError
      | _ \<Rightarrow> Inr False)"

record watch =
  w_itstinks_scene :: string
  w_clip_input :: string
  w_prev_scene_item_id :: int
  w_hide_delay_s :: rat
  w_fallback_duration_ms :: int
  w_end_timeout_s :: rat

definition pad_s :: rat where
  "pad_s = 15 / 100"

definition fallback_s :: "watch \<Rightarrow> rat" where
  "fallback_s P = of_int (w_fallback_duration_ms P) / 1000 + pad_s"

definition max_s :: "watch \<Rightarrow> rat" where
  "max_s P = max (fallback_s P) (w_end_timeout_s P)"

text \<open>The variables of the loop: \<open>hidden\<close>, \<open>seen_active\<close>, \<open>last_state\<close>.\<close>

record loop_vars =
  hidden :: bool
  seen_active :: bool
  last_state :: json

definition ended_by_obs :: "bool \<Rightarrow> json \<Rightarrow> bool \<Rightarrow> int option \<Rightarrow> int option \<Rightarrow> bool" where
  "ended_by_obs seen state act cursor dur =
     ((seen \<and> state \<noteq> JNull \<and> \<not> act) \<or>
      (case dur of
         None \<Rightarrow> False
       | Some d \<Rightarrow> 0 < d \<and> (case cursor of None \<Rightarrow> False | Some c \<Rightarrow> d - 50 \<le> c)))"

definition hide_step :: "watch \<Rightarrow> rat \<Rightarrow> bool \<Rightarrow> bool io" where
  \<comment> \<open>the first statement of the loop body; the result is the new \<open>hidden\<close>\<close>
  "hide_step P elapsed hid =
     (if \<not> hid \<and> w_hide_delay_s P \<le> elapsed then
        bind_io
          (try_io
             (bind_io (set_scene_item_enabled (w_itstinks_scene P) (w_prev_scene_item_id P)
                         False ''hidePrev'') (\<lambda>_.
                print_io INFO ''Hid PreviousScene in itstinks'' None))
             (\<lambda>e. print_io DEBUG ''hide failed (ignored)'' (Some e)))
          (\<lambda>_. return_io True)
      else return_io hid)"

definition status_step :: "watch \<Rightarrow> (json \<times> int option \<times> int option) io" where
  \<comment> \<open>the second statement of the loop body\<close>
  "status_step P =
     try_io (get_media_status (w_clip_input P))
       (\<lambda>e. bind_io (print_io DEBUG ''GetMediaInputStatus failed (ignored)'' (Some e)) (\<lambda>_.
            return_io (JNull, None, None)))"

definition hold_tick :: "watch \<Rightarrow> rat \<Rightarrow> loop_vars \<Rightarrow> (loop_vars option) io" where
  \<comment> \<open>one turn of the loop at the given elapsed time: \<open>None\<close> is \<^verbatim>\<open>return\<close>, \<open>Some v\<close>
      goes on to the sleep and the next turn with the variables \<open>v\<close>\<close>
  "hold_tick P elapsed v =
     bind_io (hide_step P elapsed (hidden v)) (\<lambda>hid.
     bind_io (status_step P) (\<lambda>(state, cursor, dur).
     bind_io (if state \<noteq> last_state v then
                bind_io (print_io DEBUG ''mediaState='' None) (\<lambda>_. return_io state)
              else return_io (last_state v)) (\<lambda>last.
     bind_io (lift_io (in_active_states state)) (\<lambda>act.
       let seen = (seen_active v \<or> act) in
       if ended_by_obs seen state act cursor dur \<and> fallback_s P \<le> elapsed then return_io None
       else if fallback_s P \<le> elapsed then return_io None
       else if max_s P \<le> elapsed then return_io None
       else return_io (Some \<lparr>hidden = hid, seen_active = seen, last_state = last\<rparr>)))))"

fun hold_loop ::
    "watch \<Rightarrow> rat \<Rightarrow> rat list \<Rightarrow> loop_vars \<Rightarrow> world \<Rightarrow> ((exn + unit) \<times> rat list \<times> world) option" where
  \<comment> \<open>the \<^verbatim>\<open>while True\<close>, over the clock readings still to come; the readings left are
      returned with the outcome\<close>
  "hold_loop P t0 [] v w = None"
| "hold_loop P t0 (now # clock) v w =
     (case hold_tick P (now - t0) v w of
        None \<Rightarrow> None
      | Some (Inl e, w') \<Rightarrow> Some (Inl e, clock, w')
      | Some (Inr None, w') \<Rightarrow> Some (Inr (), clock, w')
      | Some (Inr (Some v'), w') \<Rightarrow> hold_loop P t0 clock v' w')"

definition hold_until_clip_done_or_fallback ::
    "watch \<Rightarrow> rat list \<Rightarrow> world \<Rightarrow> ((exn + unit) \<times> rat list \<times> world) option" where
  "hold_until_clip_done_or_fallback P clock w =
     (case clock of
        [] \<Rightarrow> None
      | t0 # clock' \<Rightarrow>
          hold_loop P t0 clock' \<lparr>hidden = False, seen_active = False, last_state = JNull\<rparr> w)"

section \<open>The saga\<close>

record params =
  itstinks_scene :: string
  clip_input :: string
  prevscene_scene_source_name :: string
  previousscene_clone_input :: string
  hide_delay_s :: rat
  fallback_duration_ms :: int
  preload_ms :: int
  force_cut :: bool

text \<open>The local variables of \<open>takemycutplease\<close> that its \<^verbatim>\<open>finally\<close> block reads.\<close>

record saved =
  return_scene :: json
  saved_from_ov :: "string option \<times> int option"
  saved_itstinks_ov :: "string option \<times> int option"
  overrides_disabled :: bool
  saved_trans :: "json \<times> int option"

definition get_return_scene :: "string \<Rightarrow> json io" where
  \<comment> \<open>the query of the current program scene and the check of its answer\<close>
  "get_return_scene req_id =
     bind_io (request ''GetCurrentProgramScene'' None req_id) (\<lambda>resp.
     bind_io (lift_io (dict_get resp ''responseData'' (JObj []))) (\<lambda>rd.
       lift_io (dict_get rd ''currentProgramSceneName'' JNull)))"

definition resolve_clone_target :: "params \<Rightarrow> json \<Rightarrow> json io" where
  \<comment> \<open>\<open>clone_target\<close>, from \<open>return_scene\<close>\<close>
  "resolve_clone_target P ret =
     (if ret = JStr ''PreviousScene'' then
        try_io
          (bind_io (request ''GetInputSettings''
                      (Some (JObj [(''inputName'', JStr (previousscene_clone_input P))]))
                      ''getCloneSettings'') (\<lambda>r.
           bind_io (lift_io (dict_get r ''responseData'' (JObj []))) (\<lambda>rd.
           bind_io (lift_io (dict_get rd ''inputSettings'' (JObj []))) (\<lambda>s0.
           bind_io (lift_io (dict_get (or_empty_dict s0) ''clone'' JNull)) (\<lambda>c.
             (case str_or_none c of
                Some cs \<Rightarrow>
                  if cs \<noteq> ''PreviousScene'' then
                    bind_io (print_io INFO ''On PreviousScene wrapper; using clone target'' None) (\<lambda>_.
                      return_io c)
                  else return_io ret
              | None \<Rightarrow> return_io ret))))))
          (\<lambda>e. bind_io (print_io DEBUG ''Could not resolve wrapper clone target (ignored)'' (Some e)) (\<lambda>_.
               return_io ret))
      else return_io ret)"

definition clear_overrides ::
    "params \<Rightarrow> json \<Rightarrow> ((string option \<times> int option) \<times> (string option \<times> int option) \<times> bool) io" where
  \<comment> \<open>the first \<^verbatim>\<open>try\<close> of the saga; the result is \<open>saved_from_ov\<close>,
      \<open>saved_itstinks_ov\<close> and \<open>overrides_disabled\<close>.\<close>
  "clear_overrides P ret w =
     (case get_scene_transition_override ret ''getOvFrom'' w of
        None \<Rightarrow> None
      | Some (Inl e, w1) \<Rightarrow>
          bind_io (print_io DEBUG ''Could not clear/inspect scene transition overrides (continuing)'' (Some e))
            (\<lambda>_. return_io ((None, None), (None, None), False)) w1
      | Some (Inr from_ov, w1) \<Rightarrow>
          (case get_scene_transition_override (JStr (itstinks_scene P)) ''getOvItstinks'' w1 of
             None \<Rightarrow> None
           | Some (Inl e, w2) \<Rightarrow>
               bind_io (print_io DEBUG ''Could not clear/inspect scene transition overrides (continuing)'' (Some e))
                 (\<lambda>_. return_io (from_ov, (None, None), False)) w2
           | Some (Inr it_ov, w2) \<Rightarrow>
               try_io
                 (bind_io (set_scene_transition_override ret None None ''clrOvFrom'') (\<lambda>_.
                  bind_io (set_scene_transition_override (JStr (itstinks_scene P)) None None
                             ''clrOvItstinks'') (\<lambda>_.
                  bind_io (print_io INFO ''Temporarily cleared transition overrides'' None) (\<lambda>_.
                    return_io (from_ov, it_ov, True)))))
                 (\<lambda>e. bind_io (print_io DEBUG ''Could not clear/inspect scene transition overrides (continuing)'' (Some e))
                      (\<lambda>_. return_io (from_ov, it_ov, False))) w2))"

definition set_clone_and_find_items :: "params \<Rightarrow> json \<Rightarrow> (int \<times> int) io" where
  \<comment> \<open>the body of the second \<^verbatim>\<open>try\<close> up to the assignment of \<open>prev_scene_item_id\<close>;
      the result is \<open>clip_scene_item_id\<close> and \<open>prev_scene_item_id\<close>\<close>
  "set_clone_and_find_items P clone_target =
     bind_io (request ''SetInputSettings''
                (Some (JObj [(''inputName'', JStr (previousscene_clone_input P)),
                             (''inputSettings'', JObj [(''clone'', clone_target)]),
                             (''overlay'', JBool True)]))
                ''setCloneTarget'') (\<lambda>_.
     bind_io (print_io INFO ''clone ->'' None) (\<lambda>_.
     bind_io (get_scene_item_id (itstinks_scene P) (clip_input P) ''getClipItemId'') (\<lambda>clip_id.
     bind_io (get_scene_item_id (itstinks_scene P) (prevscene_scene_source_name P) ''getPrevItemId'')
       (\<lambda>prev_id. return_io (clip_id, prev_id)))))"

definition watch_of :: "params \<Rightarrow> int \<Rightarrow> rat \<Rightarrow> watch" where
  \<comment> \<open>the arguments the saga calls the watcher with\<close>
  "watch_of P prev_id effective_hide =
     \<lparr>w_itstinks_scene = itstinks_scene P,
      w_clip_input = clip_input P,
      w_prev_scene_item_id = prev_id,
      w_hide_delay_s = effective_hide,
      w_fallback_duration_ms = fallback_duration_ms P,
      w_end_timeout_s = 15\<rparr>"

definition effective_hide :: "rat \<Rightarrow> rat \<Rightarrow> rat" where
  "effective_hide hide_delay already_elapsed = max 0 (hide_delay - max 0 already_elapsed)"

definition hold_io :: "watch \<Rightarrow> rat list \<Rightarrow> unit io" where
  "hold_io W clock w =
     (case hold_until_clip_done_or_fallback W clock w of
        None \<Rightarrow> None
      | Some (r, clock', w') \<Rightarrow> Some (r, w'))"

definition show_play_and_return :: "params \<Rightarrow> json \<Rightarrow> int \<Rightarrow> int \<Rightarrow> rat list \<Rightarrow> unit io" where
  \<comment> \<open>the rest of the body of the second \<^verbatim>\<open>try\<close>. The clock is read after the sleep of
      20 ms (\<open>t_restart\<close>), after the switch, and then by the watcher\<close>
  "show_play_and_return P ret clip_id prev_id clock =
     bind_io (set_scene_item_enabled (itstinks_scene P) prev_id True ''enablePrevAtStart'') (\<lambda>_.
     bind_io (set_scene_item_enabled (itstinks_scene P) clip_id True ''enableClipAtStart'') (\<lambda>_.
     bind_io (try_io
                (bind_io (request ''TriggerMediaInputAction''
                            (Some (JObj [(''inputName'', JStr (clip_input P)),
                                         (''mediaAction'', JStr ''OBS_WEBSOCKET_MEDIA_INPUT_ACTION_STOP'')]))
                            ''stopClipPre'') (\<lambda>_. return_io ()))
                (\<lambda>e. return_io ())) (\<lambda>_.
       (case clock of
          [] \<Rightarrow> (\<lambda>w. None)
        | t_restart # clock1 \<Rightarrow>
     bind_io (request ''TriggerMediaInputAction''
                (Some (JObj [(''inputName'', JStr (clip_input P)),
                             (''mediaAction'', JStr ''OBS_WEBSOCKET_MEDIA_INPUT_ACTION_RESTART'')]))
                ''restartClipPre'') (\<lambda>_.
     bind_io (request ''SetCurrentProgramScene''
                (Some (JObj [(''sceneName'', JStr (itstinks_scene P))])) ''goItstinks'') (\<lambda>_.
     bind_io (print_io INFO ''Switched to'' None) (\<lambda>_.
       (case clock1 of
          [] \<Rightarrow> (\<lambda>w. None)
        | t_switched # clock2 \<Rightarrow>
     bind_io (hold_io (watch_of P prev_id
                         (effective_hide (hide_delay_s P) (t_switched - t_restart))) clock2) (\<lambda>_.
     bind_io (try_io (set_scene_item_enabled (itstinks_scene P) clip_id False ''disableClipEnd'')
                (\<lambda>e. print_io DEBUG ''disable clip failed (ignored)'' (Some e))) (\<lambda>_.
     bind_io (request ''SetCurrentProgramScene'' (Some (JObj [(''sceneName'', ret)])) ''goBack'') (\<lambda>_.
     bind_io (print_io INFO ''Returned to'' None) (\<lambda>_.
       try_io (set_scene_item_enabled (itstinks_scene P) prev_id True ''resetPrevVisible'')
         (\<lambda>e. print_io DEBUG ''reset prevscene visibility failed (ignored)'' (Some e))))))))))))))"

subsection \<open>The \<^verbatim>\<open>finally\<close> block\<close>

definition finally_current_scene :: "json io" where
  \<comment> \<open>\<open>cur_name\<close>\<close>
  "finally_current_scene =
     try_io (get_return_scene ''getProgramSceneFinally'') (\<lambda>e. return_io JNull)"

definition finally_emergency_return :: "params \<Rightarrow> saved \<Rightarrow> json \<Rightarrow> unit io" where
  "finally_emergency_return P S cur_name =
     (if cur_name = JStr (itstinks_scene P) then
        try_io
          (bind_io (request ''SetCurrentProgramScene''
                      (Some (JObj [(''sceneName'', return_scene S)])) ''emergencyBack'') (\<lambda>_.
             print_io WARN ''Emergency return to'' None))
          (\<lambda>e. print_io DEBUG ''Emergency return failed (ignored)'' (Some e))
      else return_io ())"

definition finally_restore_overrides :: "params \<Rightarrow> saved \<Rightarrow> unit io" where
  "finally_restore_overrides P S =
     (if overrides_disabled S then
        try_io
          (bind_io (set_scene_transition_override (JStr (itstinks_scene P))
                      (fst (saved_itstinks_ov S)) (snd (saved_itstinks_ov S)) ''rstOvItstinks'') (\<lambda>_.
           bind_io (set_scene_transition_override (return_scene S)
                      (fst (saved_from_ov S)) (snd (saved_from_ov S)) ''rstOvFrom'') (\<lambda>_.
             print_io INFO ''Restored transition overrides'' None)))
          (\<lambda>e. print_io DEBUG ''Failed to restore scene transition overrides (ignored)'' (Some e))
      else return_io ())"

definition finally_restore_transition :: "params \<Rightarrow> saved \<Rightarrow> unit io" where
  "finally_restore_transition P S =
     (if force_cut P then restore_transition (saved_trans S) else return_io ())"

definition finally_reset_visible :: "params \<Rightarrow> int option \<Rightarrow> unit io" where
  "finally_reset_visible P prev_scene_item_id =
     (case prev_scene_item_id of
        Some prev_id \<Rightarrow>
          try_io (set_scene_item_enabled (itstinks_scene P) prev_id True ''finallyResetPrevVisible'')
            (\<lambda>e. return_io ())
      | None \<Rightarrow> return_io ())"

definition unwind :: "params \<Rightarrow> saved \<Rightarrow> int option \<Rightarrow> unit io" where
  "unwind P S prev_scene_item_id =
     bind_io finally_current_scene (\<lambda>cur_name.
     bind_io (finally_emergency_return P S cur_name) (\<lambda>_.
     bind_io (finally_restore_overrides P S) (\<lambda>_.
     bind_io (finally_restore_transition P S) (\<lambda>_.
       finally_reset_visible P prev_scene_item_id))))"

definition mutate_and_unwind :: "params \<Rightarrow> saved \<Rightarrow> json \<Rightarrow> rat list \<Rightarrow> unit io" where
  \<comment> \<open>the second \<^verbatim>\<open>try\<close> with its \<^verbatim>\<open>finally\<close>: \<open>prev_scene_item_id\<close> is \<open>None\<close> in the
      \<^verbatim>\<open>finally\<close> block when the body raised before assigning it\<close>
  "mutate_and_unwind P S clone_target clock w =
     (case set_clone_and_find_items P clone_target w of
        None \<Rightarrow> None
      | Some (Inl e, w') \<Rightarrow> finally_io (raise_io e) (unwind P S None) w'
      | Some (Inr (clip_id, prev_id), w') \<Rightarrow>
          finally_io (show_play_and_return P (return_scene S) clip_id prev_id clock)
            (unwind P S (Some prev_id)) w')"

definition prepare :: "params \<Rightarrow> json \<Rightarrow> (saved \<times> json) io" where
  \<comment> \<open>from the resolution of the clone target to the forced cut; the result is the
      variables of the \<^verbatim>\<open>finally\<close> block and \<open>clone_target\<close>\<close>
  "prepare P ret =
     bind_io (resolve_clone_target P ret) (\<lambda>clone_target.
     bind_io (clear_overrides P ret) (\<lambda>(from_ov, it_ov, disabled).
     bind_io (if force_cut P then try_force_cut_transition else return_io (JNull, None)) (\<lambda>trans.
       return_io (\<lparr>return_scene = ret, saved_from_ov = from_ov, saved_itstinks_ov = it_ov,
                   overrides_disabled = disabled, saved_trans = trans\<rparr>, clone_target))))"

definition takemycutplease :: "params \<Rightarrow> rat list \<Rightarrow> unit io" where
  "takemycutplease P clock =
     bind_io (get_return_scene ''getProgramScene'') (\<lambda>ret.
       if \<not> truthy ret then raise_io NoProgramScene
       else if ret = JStr (itstinks_scene P) then
         print_io WARN ''Already on itstinks. Refusing to recurse reality.'' None
       else
         bind_io (print_io INFO ''Return program scene'' None) (\<lambda>_.
         bind_io (prepare P ret) (\<lambda>(S, clone_target).
           mutate_and_unwind P S clone_target clock)))"

section \<open>The authentication token\<close>

text \<open>
  \<open>compute_auth\<close> works on Python strings, which are sequences of code points, and on
  bytes. \<open>str.encode("utf-8")\<close> raises on a surrogate code point; \<open>bytes.decode("utf-8")\<close>
  raises on bytes that are no UTF-8. SHA-256 is the library's: the hash function is a
  parameter of the model.
\<close>

type_synonym byte = "8 word"
type_synonym pystr = "nat list"

datatype unicode_error = UnicodeEncodeError | UnicodeDecodeError

definition utf8_cp :: "nat \<Rightarrow> byte list option" where
  "utf8_cp c =
     (if c < 0x80 then Some [of_nat c]
      else if c < 0x800 then Some [of_nat (0xC0 + c div 64), of_nat (0x80 + c mod 64)]
      else if 0xD800 \<le> c \<and> c \<le> 0xDFFF then None
      else if c < 0x10000 then
        Some [of_nat (0xE0 + c div 4096), of_nat (0x80 + (c div 64) mod 64), of_nat (0x80 + c mod 64)]
      else if c < 0x110000 then
        Some [of_nat (0xF0 + c div 262144), of_nat (0x80 + (c div 4096) mod 64),
              of_nat (0x80 + (c div 64) mod 64), of_nat (0x80 + c mod 64)]
      else None)"

fun utf8_encode :: "pystr \<Rightarrow> byte list option" where
  "utf8_encode [] = Some []"
| "utf8_encode (c # cs) =
     (case utf8_cp c of
        None \<Rightarrow> None
      | Some bs \<Rightarrow> (case utf8_encode cs of None \<Rightarrow> None | Some rest \<Rightarrow> Some (bs @ rest)))"

definition is_cont :: "byte \<Rightarrow> bool" where
  "is_cont b = (0x80 \<le> unat b \<and> unat b < 0xC0)"

fun utf8_decode :: "byte list \<Rightarrow> pystr option" where
  "utf8_decode [] = Some []"
| "utf8_decode (b0 # bs) =
     (if unat b0 < 0x80 then
        (case utf8_decode bs of None \<Rightarrow> None | Some cs \<Rightarrow> Some (unat b0 # cs))
      else if 0xC2 \<le> unat b0 \<and> unat b0 < 0xE0 then
        (case bs of
           b1 # r \<Rightarrow>
             if is_cont b1 then
               (case utf8_decode r of
                  None \<Rightarrow> None
                | Some cs \<Rightarrow> Some (((unat b0 - 0xC0) * 64 + (unat b1 - 0x80)) # cs))
             else None
         | _ \<Rightarrow> None)
      else if 0xE0 \<le> unat b0 \<and> unat b0 < 0xF0 then
        (case bs of
           b1 # b2 # r \<Rightarrow>
             (let c = (unat b0 - 0xE0) * 4096 + (unat b1 - 0x80) * 64 + (unat b2 - 0x80)
              in if is_cont b1 \<and> is_cont b2 \<and> 0x800 \<le> c \<and> \<not> (0xD800 \<le> c \<and> c \<le> 0xDFFF) then
                   (case utf8_decode r of None \<Rightarrow> None | Some cs \<Rightarrow> Some (c # cs))
                 else None)
         | _ \<Rightarrow> None)
      else if 0xF0 \<le> unat b0 \<and> unat b0 < 0xF5 then
        (case bs of
           b1 # b2 # b3 # r \<Rightarrow>
             (let c = (unat b0 - 0xF0) * 262144 + (unat b1 - 0x80) * 4096
                      + (unat b2 - 0x80) * 64 + (unat b3 - 0x80)
              in if is_cont b1 \<and> is_cont b2 \<and> is_cont b3 \<and> 0x10000 \<le> c \<and> c < 0x110000 then
                   (case utf8_decode r of None \<Rightarrow> None | Some cs \<Rightarrow> Some (c # cs))
                 else None)
         | _ \<Rightarrow> None)
      else None)"

definition b64_char :: "nat \<Rightarrow> byte" where
  \<comment> \<open>the alphabet \<open>A-Z a-z 0-9 + /\<close>\<close>
  "b64_char i =
     (if i < 26 then of_nat (65 + i)
      else if i < 52 then of_nat (97 + (i - 26))
      else if i < 62 then of_nat (48 + (i - 52))
      else if i = 62 then 43
      else 47)"

fun b64encode :: "byte list \<Rightarrow> byte list" where
  "b64encode [] = []"
| "b64encode [a] =
     [b64_char (unat a div 4), b64_char ((unat a mod 4) * 16), 61, 61]"
| "b64encode [a, b] =
     [b64_char (unat a div 4), b64_char ((unat a mod 4) * 16 + unat b div 16),
      b64_char ((unat b mod 16) * 4), 61]"
| "b64encode (a # b # c # rest) =
     [b64_char (unat a div 4), b64_char ((unat a mod 4) * 16 + unat b div 16),
      b64_char ((unat b mod 16) * 4 + unat c div 64), b64_char (unat c mod 64)]
     @ b64encode rest"

definition encode_or_raise :: "pystr \<Rightarrow> unicode_error + byte list" where
  "encode_or_raise s = (case utf8_encode s of None \<Rightarrow> Inl UnicodeEncodeError | Some bs \<Rightarrow> Inr bs)"

definition decode_or_raise :: "byte list \<Rightarrow> unicode_error + pystr" where
  "decode_or_raise bs = (case utf8_decode bs of None \<Rightarrow> Inl UnicodeDecodeError | Some s \<Rightarrow> Inr s)"

definition compute_auth ::
    "(byte list \<Rightarrow> byte list) \<Rightarrow> pystr \<Rightarrow> pystr \<Rightarrow> pystr \<Rightarrow> unicode_error + pystr" where
  "compute_auth sha256 password challenge salt =
     (case encode_or_raise (password @ salt) of
        Inl e \<Rightarrow> Inl e
      | Inr pw_salt \<Rightarrow>
          (let secret_hash = sha256 pw_salt in
           case decode_or_raise (b64encode secret_hash) of
             Inl e \<Rightarrow> Inl e
           | Inr secret_b64 \<Rightarrow>
               (case encode_or_raise (secret_b64 @ challenge) of
                  Inl e \<Rightarrow> Inl e
                | Inr secret_challenge \<Rightarrow>
                    (let auth_hash = sha256 secret_challenge in
                     decode_or_raise (b64encode auth_hash)))))"

text \<open>
  The construction in the words of the specification: the token is
  \<open>base64(SHA-256(secret ++ challenge))\<close> with \<open>secret = base64(SHA-256(password ++ salt))\<close>,
  both concatenations taken over the UTF-8 encodings, and no separator. It has a value
  when the three strings have a UTF-8 encoding.
\<close>

definition two_stage_token ::
    "(byte list \<Rightarrow> byte list) \<Rightarrow> pystr \<Rightarrow> pystr \<Rightarrow> pystr \<Rightarrow> byte list option" where
  "two_stage_token sha256 password challenge salt =
     (case (utf8_encode password, utf8_encode salt, utf8_encode challenge) of
        (Some p, Some s, Some c) \<Rightarrow>
          (let secret = b64encode (sha256 (p @ s))
           in Some (b64encode (sha256 (secret @ c))))
      | _ \<Rightarrow> None)"

section \<open>Vocabulary for the properties\<close>

subsection \<open>Requests and responses\<close>

definition chosen_prefix :: "string \<Rightarrow> string" where
  \<comment> \<open>the prefix \<open>p\<close> that \<open>_mk_request_id\<close> uses\<close>
  "chosen_prefix prefix = (if prefix \<noteq> [] \<and> prefix \<noteq> ''1'' then prefix else ''req'')"

definition next_request_id :: "string \<Rightarrow> world \<Rightarrow> string" where
  \<comment> \<open>the correlation id of the next request made in the world \<open>w\<close>\<close>
  "next_request_id prefix w = chosen_prefix prefix @ ''-'' @ str_nat (req_seq w + 1)"

definition ignored :: "string \<Rightarrow> frame \<Rightarrow> bool" where
  \<comment> \<open>a frame that the receive loop of \<open>request\<close> skips: a message whose op is not 7,
      or a response to another request\<close>
  "ignored rid f =
     (case f of
        RecvFail e \<Rightarrow> False
      | Recv msg \<Rightarrow>
          (case dict_get msg ''op'' JNull of
             Inl e \<Rightarrow> False
           | Inr op \<Rightarrow>
               \<not> py_eq op (JInt 7) \<or>
               (case dict_get msg ''d'' (JObj []) of
                  Inl e \<Rightarrow> False
                | Inr d \<Rightarrow>
                    (case dict_get d ''requestId'' JNull of
                       Inl e \<Rightarrow> False
                     | Inr i \<Rightarrow> i \<noteq> JStr rid))))"

definition answers :: "string \<Rightarrow> json \<Rightarrow> json \<Rightarrow> bool" where
  \<comment> \<open>\<open>msg\<close> is the matched response of the request \<open>rid\<close>, with the body \<open>d\<close>\<close>
  "answers rid msg d =
     (case dict_get msg ''op'' JNull of
        Inl e \<Rightarrow> False
      | Inr op \<Rightarrow>
          py_eq op (JInt 7) \<and> dict_get msg ''d'' (JObj []) = Inr d \<and>
          dict_get d ''requestId'' JNull = Inr (JStr rid))"

definition field :: "(string \<times> json) list \<Rightarrow> string \<Rightarrow> json \<Rightarrow> json" where
  "field kvs k dflt = (case map_of kvs k of Some v \<Rightarrow> v | None \<Rightarrow> dflt)"

definition after_last_dash :: "string \<Rightarrow> string" where
  "after_last_dash s = rev (takeWhile (\<lambda>c. c \<noteq> CHR ''-'') (rev s))"

definition id_counter :: "json \<Rightarrow> nat" where
  \<comment> \<open>the number written after the last \<open>-\<close> of a correlation id\<close>
  "id_counter i =
     (case i of
        JStr s \<Rightarrow> foldl (\<lambda>a c. a * 10 + digit_val c) 0 (after_last_dash s)
      | _ \<Rightarrow> 0)"

definition payload_field :: "json \<Rightarrow> string \<Rightarrow> json" where
  \<comment> \<open>a field of the \<open>d\<close> of a sent payload\<close>
  "payload_field p k =
     (case dict_get p ''d'' JNull of
        Inl e \<Rightarrow> JNull
      | Inr d \<Rightarrow> (case dict_get d k JNull of Inl e \<Rightarrow> JNull | Inr v \<Rightarrow> v))"

definition sent_ids :: "world \<Rightarrow> json list" where
  "sent_ids w = map (\<lambda>p. payload_field p ''requestId'') (sent w)"

type_synonym call = "string \<times> json option \<times> string"

fun requests :: "call list \<Rightarrow> world \<Rightarrow> world option" where
  \<comment> \<open>calls of \<open>request\<close> one after the other, whatever each returns or raises\<close>
  "requests [] w = Some w"
| "requests ((request_type, request_data, req_id) # calls) w =
     (case request request_type request_data req_id w of
        None \<Rightarrow> None
      | Some (r, w') \<Rightarrow> requests calls w')"

fun ids_from :: "nat \<Rightarrow> call list \<Rightarrow> json list" where
  \<comment> \<open>the chosen prefix, a \<open>-\<close> and the counter, for a counter that goes up by one\<close>
  "ids_from n [] = []"
| "ids_from n ((request_type, request_data, req_id) # calls) =
     JStr (chosen_prefix req_id @ ''-'' @ str_nat (n + 1)) # ids_from (n + 1) calls"

subsection \<open>The watcher\<close>

text \<open>The request data of the watcher's hide request, and the hide requests sent so far.\<close>

definition hide_data :: "watch \<Rightarrow> json" where
  "hide_data P = JObj [(''sceneName'', JStr (w_itstinks_scene P)),
                       (''sceneItemId'', JInt (w_prev_scene_item_id P)),
                       (''sceneItemEnabled'', JBool False)]"

definition is_hide :: "json \<Rightarrow> bool" where
  "is_hide p =
     (payload_field p ''requestType'' = JStr ''SetSceneItemEnabled'' \<and>
      dict_get (payload_field p ''requestData'') ''sceneItemEnabled'' JNull = Inr (JBool False))"

definition hides :: "world \<Rightarrow> json list" where
  "hides w = filter is_hide (sent w)"


section \<open>Example worlds\<close>

text \<open>
  A client that has made four requests; the server delivers an event, a response to an
  earlier request, the rejection of the next request, and another event.
\<close>

definition w_ex :: world where
  "w_ex = \<lparr>req_seq = 4,
            inbox = [Recv (JObj [(''op'', JInt 5), (''d'', JObj [(''eventType'', JStr ''SceneChanged'')])]),
                     Recv (JObj [(''op'', JInt 7), (''d'', JObj [(''requestId'', JStr ''getMedia-4'')])]),
                     Recv (JObj [(''op'', JInt 7),
                                 (''d'', JObj [(''requestId'', JStr ''getMedia-5''),
                                               (''requestStatus'',
                                                  JObj [(''result'', JBool False), (''code'', JInt 600),
                                                        (''comment'', JStr ''No source'')])])]),
                     Recv (JObj [(''op'', JInt 5)])],
            sent = [], stderr = []\<rparr>"

text \<open>A fresh client, and the answers to two requests.\<close>

definition ok_response :: "string \<Rightarrow> (string \<times> json) list \<Rightarrow> frame" where
  \<comment> \<open>a successful response to the request \<open>rid\<close>, with the given response data\<close>
  "ok_response rid rd =
     Recv (JObj [(''op'', JInt 7),
                 (''d'', JObj [(''requestId'', JStr rid),
                               (''requestStatus'', JObj [(''result'', JBool True), (''code'', JInt 100)]),
                               (''responseData'', JObj rd)])])"

definition w_fresh :: world where
  "w_fresh = \<lparr>req_seq = 0, inbox = [ok_response ''req-1'' [], ok_response ''getMedia-2'' []],
              sent = [], stderr = []\<rparr>"

definition two_calls :: "call list" where
  "two_calls = [(''GetVersion'', None, ''1''), (''GetMediaInputStatus'', None, ''getMedia'')]"

definition w_after_two :: world where
  "w_after_two = \<lparr>req_seq = 2, inbox = [],
                  sent = [request_payload ''GetVersion'' None ''req-1'',
                          request_payload ''GetMediaInputStatus'' None ''getMedia-2''],
                  stderr = []\<rparr>"

text \<open>
  A watch of a clip with a floor of 1.15 s and a hide delay of 0.3 s, polled every quarter
  of a second from the time 10. In the first world the clip plays and then ends; in the
  second the connection is closed and every \<open>recv\<close> raises.
\<close>

definition media_response :: "string \<Rightarrow> string \<Rightarrow> int \<Rightarrow> int \<Rightarrow> frame" where
  "media_response rid state cursor dur =
     ok_response rid [(''mediaState'', JStr state), (''mediaCursor'', JInt cursor),
                      (''mediaDuration'', JInt dur)]"

definition watch_ex :: watch where
  "watch_ex = \<lparr>w_itstinks_scene = ''itstinks'', w_clip_input = ''it_stinks_clip'',
               w_prev_scene_item_id = 7, w_hide_delay_s = 3 / 10,
               w_fallback_duration_ms = 1000, w_end_timeout_s = 15\<rparr>"

definition clock_ex :: "rat list" where
  "clock_ex = [10, 10, 41 / 4, 21 / 2, 43 / 4, 11, 45 / 4, 12]"

definition w_playing :: world where
  "w_playing =
     \<lparr>req_seq = 0,
      inbox = [media_response ''getMedia-1'' ''OBS_WEBSOCKET_MEDIA_INPUT_STATE_PLAYING'' 0 7500,
               media_response ''getMedia-2'' ''OBS_WEBSOCKET_MEDIA_INPUT_STATE_PLAYING'' 250 7500,
               ok_response ''hidePrev-3'' [],
               media_response ''getMedia-4'' ''OBS_WEBSOCKET_MEDIA_INPUT_STATE_ENDED'' 7500 7500,
               media_response ''getMedia-5'' ''OBS_WEBSOCKET_MEDIA_INPUT_STATE_ENDED'' 7500 7500,
               media_response ''getMedia-6'' ''OBS_WEBSOCKET_MEDIA_INPUT_STATE_ENDED'' 7500 7500,
               media_response ''getMedia-7'' ''OBS_WEBSOCKET_MEDIA_INPUT_STATE_ENDED'' 7500 7500],
      sent = [], stderr = []\<rparr>"

definition w_closed :: world where
  "w_closed = \<lparr>req_seq = 0, inbox = replicate 12 (RecvFail (TransportError 1006)),
               sent = [], stderr = []\<rparr>"


definition w_hide_fails :: world where
  "w_hide_fails =
     \<lparr>req_seq = 0,
      inbox = [RecvFail (TransportError 1006),
               media_response ''getMedia-2'' ''OBS_WEBSOCKET_MEDIA_INPUT_STATE_PLAYING'' 3000 7500],
      sent = [], stderr = []\<rparr>"


section \<open>Properties of the authentication token\<close>

lemma utf8_encode_append:
  "utf8_encode (a @ b) =
     (case utf8_encode a of
        None \<Rightarrow> None
      | Some x \<Rightarrow> (case utf8_encode b of None \<Rightarrow> None | Some y \<Rightarrow> Some (x @ y)))"
  by (induction a) (auto split: option.splits)

lemma unat_of_nat_ascii: "n < 128 \<Longrightarrow> unat (of_nat n :: byte) < 128"
  by (simp add: unat_of_nat)

lemma b64_char_ascii: "unat (b64_char i) < 0x80"
proof -
  have "\<exists>n < 128. b64_char i = of_nat n"
  proof -
    consider "i < 26" | "26 \<le> i \<and> i < 52" | "52 \<le> i \<and> i < 62" | "i = 62" | "62 < i"
      by linarith
    then show ?thesis
    proof cases
      case 1
      then show ?thesis
        by (intro exI[of _ "65 + i"]) (auto simp: b64_char_def)
    next
      case 2
      then show ?thesis
        by (intro exI[of _ "97 + (i - 26)"]) (auto simp: b64_char_def)
    next
      case 3
      then show ?thesis
        by (intro exI[of _ "48 + (i - 52)"]) (auto simp: b64_char_def)
    next
      case 4
      then show ?thesis
        by (intro exI[of _ 43]) (auto simp: b64_char_def)
    next
      case 5
      then show ?thesis
        by (intro exI[of _ 47]) (auto simp: b64_char_def)
    qed
  qed
  then obtain n where "n < 128" and "b64_char i = of_nat n"
    by blast
  then show ?thesis
    by (simp only: unat_of_nat_ascii)
qed

lemma b64encode_ascii: "list_all (\<lambda>b. unat b < 0x80) (b64encode bs)"
  by (induction bs rule: b64encode.induct) (simp_all add: b64_char_ascii)

lemma utf8_decode_ascii:
  "list_all (\<lambda>b. unat b < 0x80) bs \<Longrightarrow> utf8_decode bs = Some (map unat bs)"
  by (induction bs) simp_all

lemma utf8_cp_ascii: "unat b < 0x80 \<Longrightarrow> utf8_cp (unat b) = Some [b]"
  by (simp add: utf8_cp_def)

lemma utf8_encode_ascii:
  "list_all (\<lambda>b. unat b < 0x80) bs \<Longrightarrow> utf8_encode (map unat bs) = Some bs"
  by (induction bs) (simp_all add: utf8_cp_ascii)

lemma b64encode_Man: "b64encode [77, 97, 110, 77] = [84, 87, 70, 117, 84, 81, 61, 61]"
  by (simp add: b64_char_def)

text \<open>
  Claim C4. For every password, challenge and salt, \<open>compute_auth\<close> is the two-stage
  construction: the token is the base64 text of the SHA-256 hash of \<open>secret ++ challenge\<close>,
  where \<open>secret\<close> is the base64 text of the hash of \<open>password ++ salt\<close>, the
  concatenations being those of the UTF-8 encodings, with no separator. It is a function
  of the three strings. When one of them has no UTF-8 encoding (a surrogate code point),
  the construction has no value and \<open>compute_auth\<close> raises \<open>UnicodeEncodeError\<close>.
\<close>

theorem compute_auth_two_stage:
  "compute_auth sha256 password challenge salt =
     (case two_stage_token sha256 password challenge salt of
        Some token \<Rightarrow> Inr (map unat token)
      | None \<Rightarrow> Inl UnicodeEncodeError)"
proof -
  have dec: "decode_or_raise (b64encode h) = Inr (map unat (b64encode h))" for h
    by (simp add: decode_or_raise_def utf8_decode_ascii b64encode_ascii)
  show ?thesis
    by (simp add: compute_auth_def two_stage_token_def encode_or_raise_def utf8_encode_append
        dec utf8_encode_ascii b64encode_ascii Let_def split: option.splits)
qed

section \<open>Properties of the client\<close>

lemma mk_request_id_eq:
  "mk_request_id prefix w = Some (Inr (next_request_id prefix w), w\<lparr>req_seq := req_seq w + 1\<rparr>)"
  by (simp add: mk_request_id_def next_request_id_def chosen_prefix_def Let_def)

lemma await_response_ignored:
  "list_all (ignored rid) skipped \<Longrightarrow>
   await_response request_type rid (skipped @ fs) = await_response request_type rid fs"
proof (induction skipped)
  case Nil
  then show ?case by simp
next
  case (Cons f skipped)
  then show ?case
    by (cases f) (auto simp: ignored_def split: sum.splits)
qed

lemma await_response_answers:
  "answers rid msg d \<Longrightarrow>
   await_response request_type rid (Recv msg # fs) = Some (check_response request_type d, fs)"
  by (auto simp: answers_def split: sum.splits)

lemma check_response_dict:
  "dict_get d ''requestStatus'' (JObj []) = Inr (JObj status) \<Longrightarrow>
   check_response request_type d =
     (if field status ''result'' JNull = JBool True then Inr d
      else Inl (RequestFailed request_type (field status ''code'' JNull)
                  (field status ''comment'' (JStr []))))"
  by (simp add: check_response_def dict_get_def field_def)

lemma request_eq:
  "request request_type request_data req_id w =
     (case await_response request_type (next_request_id req_id w) (inbox w) of
        None \<Rightarrow> None
      | Some (r, fs) \<Rightarrow>
          Some (r, w\<lparr>req_seq := req_seq w + 1,
                      sent := sent w @ [request_payload request_type request_data
                                          (next_request_id req_id w)],
                      inbox := fs\<rparr>))"
  by (simp add: request_def bind_io_def mk_request_id_eq Let_def split: option.splits)

text \<open>
  Claim C3. When the response matched by \<open>request\<close> (op 7, the request's own id, after
  any number of skipped frames) carries a status dict, then: if its \<open>result\<close> is not
  \<open>True\<close>, the call raises an error carrying the operation name, the remote code and the
  remote comment, and returns nothing; if it is \<open>True\<close>, the call returns the response
  body unchanged.
\<close>

theorem request_matched_response:
  assumes "inbox w = skipped @ Recv msg # rest"
    and "list_all (ignored (next_request_id req_id w)) skipped"
    and "answers (next_request_id req_id w) msg d"
    and "dict_get d ''requestStatus'' (JObj []) = Inr (JObj status)"
  shows "request request_type request_data req_id w =
     Some (if field status ''result'' JNull = JBool True then Inr d
           else Inl (RequestFailed request_type (field status ''code'' JNull)
                       (field status ''comment'' (JStr []))),
           w\<lparr>req_seq := req_seq w + 1,
             sent := sent w @ [request_payload request_type request_data
                                 (next_request_id req_id w)],
             inbox := rest\<rparr>)"
  using assms
  by (simp only: request_eq await_response_ignored await_response_answers check_response_dict
      option.case prod.case)


theorem request_matched_response_witness:
  "request ''GetMediaInputStatus'' None ''getMedia'' w_ex =
     Some (Inl (RequestFailed ''GetMediaInputStatus'' (JInt 600) (JStr ''No source'')),
           \<lparr>req_seq = 5, inbox = [Recv (JObj [(''op'', JInt 5)])],
            sent = [request_payload ''GetMediaInputStatus'' None ''getMedia-5''], stderr = []\<rparr>)"
proof -
  let ?d = "JObj [(''requestId'', JStr ''getMedia-5''),
                  (''requestStatus'',
                     JObj [(''result'', JBool False), (''code'', JInt 600),
                           (''comment'', JStr ''No source'')])]"
  have rid: "next_request_id ''getMedia'' w_ex = ''getMedia-5''"
    by code_simp
  have 1: "inbox w_ex =
      [Recv (JObj [(''op'', JInt 5), (''d'', JObj [(''eventType'', JStr ''SceneChanged'')])]),
       Recv (JObj [(''op'', JInt 7), (''d'', JObj [(''requestId'', JStr ''getMedia-4'')])])]
      @ Recv (JObj [(''op'', JInt 7), (''d'', ?d)]) # [Recv (JObj [(''op'', JInt 5)])]"
    by (simp add: w_ex_def)
  have 2: "list_all (ignored (next_request_id ''getMedia'' w_ex))
      [Recv (JObj [(''op'', JInt 5), (''d'', JObj [(''eventType'', JStr ''SceneChanged'')])]),
       Recv (JObj [(''op'', JInt 7), (''d'', JObj [(''requestId'', JStr ''getMedia-4'')])])]"
    by (simp add: rid ignored_def dict_get_def)
  have 3: "answers (next_request_id ''getMedia'' w_ex) (JObj [(''op'', JInt 7), (''d'', ?d)]) ?d"
    by (simp add: rid answers_def dict_get_def)
  have 4: "dict_get ?d ''requestStatus'' (JObj []) =
      Inr (JObj [(''result'', JBool False), (''code'', JInt 600), (''comment'', JStr ''No source'')])"
    by (simp add: dict_get_def)
  show ?thesis
    using request_matched_response [OF 1 2 3 4, of "''GetMediaInputStatus''" None]
    by (simp add: rid field_def) (simp add: w_ex_def)
qed

lemma digit_val_digit_char: "d < 10 \<Longrightarrow> digit_val (digit_char d) = d"
  by (simp add: digit_val_def digit_char_def)

lemma digit_char_not_dash: "d < 10 \<Longrightarrow> digit_char d \<noteq> CHR ''-''"
proof
  assume d: "d < 10" and eq: "digit_char d = CHR ''-''"
  have "(of_char (digit_char d) :: nat) = of_char CHR ''-''"
    by (simp only: eq)
  with d show False by (simp add: digit_char_def)
qed

lemma dash_notin_str_nat: "CHR ''-'' \<notin> set (str_nat n)"
proof (induction n rule: str_nat.induct)
  case (1 n)
  show ?case
  proof (cases "n < 10")
    case True
    then show ?thesis using digit_char_not_dash[of n] by (simp add: str_nat.simps[of n])
  next
    case False
    then show ?thesis using 1 digit_char_not_dash[of "n mod 10"]
      by (simp add: str_nat.simps[of n])
  qed
qed

lemma decimal_str_nat: "foldl (\<lambda>a c. a * 10 + digit_val c) 0 (str_nat n) = n"
proof (induction n rule: str_nat.induct)
  case (1 n)
  show ?case
  proof (cases "n < 10")
    case True
    then show ?thesis by (simp add: str_nat.simps[of n] digit_val_digit_char)
  next
    case False
    then show ?thesis using 1
      by (simp add: str_nat.simps[of n] digit_val_digit_char)
  qed
qed

lemma after_last_dash_id: "after_last_dash (p @ ''-'' @ str_nat n) = str_nat n"
proof -
  have "takeWhile (\<lambda>c. c \<noteq> CHR ''-'') (rev (str_nat n) @ CHR ''-'' # rev p) = rev (str_nat n)"
    by (rule takeWhile_tail[THEN trans, rotated] ) (use dash_notin_str_nat in auto)
  then show ?thesis by (simp add: after_last_dash_def)
qed

lemma id_counter_id: "id_counter (JStr (p @ ''-'' @ str_nat n)) = n"
  by (simp only: id_counter_def json.case after_last_dash_id decimal_str_nat)

lemma id_counter_ids_from: "map id_counter (ids_from n calls) = [n + 1 ..< n + 1 + length calls]"
proof (induction calls arbitrary: n)
  case Nil
  then show ?case by simp
next
  case (Cons c calls)
  obtain rt rd p where c: "c = (rt, rd, p)" by (cases c)
  have "[n + 1 ..< n + 1 + length (c # calls)] = (n + 1) # [n + 1 + 1 ..< n + 1 + 1 + length calls]"
    by (simp add: upt_rec)
  then show ?case
    using Cons[of "n + 1"] by (simp only: c ids_from.simps list.map id_counter_id)
qed

lemma distinct_ids_from: "distinct (ids_from n calls)"
proof -
  have "distinct (map id_counter (ids_from n calls))"
    by (simp only: id_counter_ids_from distinct_upt)
  then show ?thesis by (simp add: distinct_map)
qed

lemma payload_field_request_id:
  "payload_field (request_payload request_type request_data rid) ''requestId'' = JStr rid"
  by (simp add: payload_field_def request_payload_def dict_get_def)

lemma request_sent_ids:
  assumes "request request_type request_data req_id w = Some (r, w')"
  shows "sent_ids w' = sent_ids w @ [JStr (chosen_prefix req_id @ ''-'' @ str_nat (req_seq w + 1))]"
    and "req_seq w' = req_seq w + 1"
  using assms
  by (auto simp: request_eq sent_ids_def payload_field_request_id next_request_id_def
      split: option.splits)

lemma requests_sent_ids:
  "requests calls w = Some w' \<Longrightarrow>
   sent_ids w' = sent_ids w @ ids_from (req_seq w) calls \<and> req_seq w' = req_seq w + length calls"
proof (induction calls arbitrary: w)
  case Nil
  then show ?case by simp
next
  case (Cons c calls)
  obtain rt rd p where c: "c = (rt, rd, p)" by (cases c)
  from Cons.prems obtain r w1 where 1: "request rt rd p w = Some (r, w1)"
    and 2: "requests calls w1 = Some w'"
    by (auto simp: c split: option.splits)
  from Cons.IH[OF 2] request_sent_ids[OF 1] show ?case
    by (simp add: c)
qed

text \<open>
  Claim C5. In every sequence of calls of \<open>request\<close> on one client, started with nothing
  sent, the correlation ids sent are pairwise distinct: the counter goes up by one with
  every id, and the id is the chosen prefix, a \<open>-\<close> and the counter.
\<close>

theorem request_ids_unique:
  assumes "requests calls w = Some w'" and "sent w = []"
  shows "sent_ids w' = ids_from (req_seq w) calls \<and> distinct (sent_ids w') \<and>
         req_seq w' = req_seq w + length calls"
  using requests_sent_ids[OF assms(1)] assms(2) distinct_ids_from[of "req_seq w" calls]
  by (simp add: sent_ids_def)


theorem request_ids_unique_witness:
  "requests two_calls w_fresh = Some w_after_two \<and> sent w_fresh = [] \<and>
   sent_ids w_after_two = [JStr ''req-1'', JStr ''getMedia-2''] \<and>
   distinct (sent_ids w_after_two) \<and> req_seq w_after_two = 2"
proof -
  have h: "requests two_calls w_fresh = Some w_after_two"
    by code_simp
  have s: "sent w_fresh = []"
    by (simp add: w_fresh_def)
  have e: "ids_from (req_seq w_fresh) two_calls = [JStr ''req-1'', JStr ''getMedia-2'']"
    by code_simp
  have n: "req_seq w_fresh + length two_calls = 2"
    by (simp add: w_fresh_def two_calls_def)
  show ?thesis
    using request_ids_unique [OF h s] h s by (simp add: e n)
qed

section \<open>Rules for computations\<close>

lemma return_io_simp [simp]: "return_io x w = Some (Inr x, w)"
  by (simp add: return_io_def)

lemma raise_io_simp [simp]: "raise_io e w = Some (Inl e, w)"
  by (simp add: raise_io_def)

lemma lift_io_simp [simp]: "lift_io r w = Some (r, w)"
  by (simp add: lift_io_def)

lemma print_io_simp [simp]:
  "print_io l s e w = Some (Inr (), w\<lparr>stderr := stderr w @ [(l, s, e)]\<rparr>)"
  by (simp add: print_io_def)

lemma bind_io_None [simp]: "m w = None \<Longrightarrow> bind_io m f w = None"
  by (simp add: bind_io_def)

lemma bind_io_Inl [simp]: "m w = Some (Inl e, w1) \<Longrightarrow> bind_io m f w = Some (Inl e, w1)"
  by (simp add: bind_io_def)

lemma bind_io_Inr [simp]: "m w = Some (Inr x, w1) \<Longrightarrow> bind_io m f w = f x w1"
  by (simp add: bind_io_def)

lemma try_io_None [simp]: "m w = None \<Longrightarrow> try_io m h w = None"
  by (simp add: try_io_def)

lemma try_io_Inl [simp]: "m w = Some (Inl e, w1) \<Longrightarrow> try_io m h w = h e w1"
  by (simp add: try_io_def)

lemma try_io_Inr [simp]: "m w = Some (Inr x, w1) \<Longrightarrow> try_io m h w = Some (Inr x, w1)"
  by (simp add: try_io_def)

lemma io_cases:
  fixes m :: "'a io"
  obtains (blocks) "m w = None"
  | (raises) e w1 where "m w = Some (Inl e, w1)"
  | (returns) x w1 where "m w = Some (Inr x, w1)"
proof (cases "m w")
  case None
  then show ?thesis by (rule blocks)
next
  case (Some p)
  obtain r w1 where p: "p = (r, w1)" by (cases p)
  show ?thesis
  proof (cases r)
    case (Inl e)
    with Some p show ?thesis by (intro raises[of e w1]) simp
  next
    case (Inr x)
    with Some p show ?thesis by (intro returns[of x w1]) simp
  qed
qed

lemma set_scene_item_enabled_bind:
  "set_scene_item_enabled s i b rid =
     bind_io (request ''SetSceneItemEnabled''
                (Some (JObj [(''sceneName'', JStr s), (''sceneItemId'', JInt i),
                             (''sceneItemEnabled'', JBool b)])) rid) (\<lambda>_. return_io ())"
  by (simp add: set_scene_item_enabled_def)

lemma hide_step_not_due:
  "hid \<or> elapsed < w_hide_delay_s P \<Longrightarrow> hide_step P elapsed hid w = Some (Inr hid, w)"
  by (auto simp: hide_step_def)

lemma hide_step_due:
  assumes "\<not> hid" and "w_hide_delay_s P \<le> elapsed"
  shows "hide_step P elapsed hid w =
     (case request ''SetSceneItemEnabled'' (Some (hide_data P)) ''hidePrev'' w of
        None \<Rightarrow> None
      | Some (Inl e, w1) \<Rightarrow>
          Some (Inr True, w1\<lparr>stderr := stderr w1 @ [(DEBUG, ''hide failed (ignored)'', Some e)]\<rparr>)
      | Some (Inr d, w1) \<Rightarrow>
          Some (Inr True, w1\<lparr>stderr := stderr w1 @ [(INFO, ''Hid PreviousScene in itstinks'', None)]\<rparr>))"
proof (cases rule: io_cases[of "request ''SetSceneItemEnabled'' (Some (hide_data P)) ''hidePrev''" w])
  case blocks
  then show ?thesis using assms
    by (simp add: hide_step_def set_scene_item_enabled_bind hide_data_def)
next
  case (raises e w1)
  then show ?thesis using assms
    by (simp add: hide_step_def set_scene_item_enabled_bind hide_data_def)
next
  case (returns x w1)
  then show ?thesis using assms
    by (simp add: hide_step_def set_scene_item_enabled_bind hide_data_def)
qed

lemma status_step_eq:
  "status_step P w =
     (case get_media_status (w_clip_input P) w of
        None \<Rightarrow> None
      | Some (Inl e, w1) \<Rightarrow>
          Some (Inr (JNull, None, None),
                w1\<lparr>stderr := stderr w1 @ [(DEBUG, ''GetMediaInputStatus failed (ignored)'', Some e)]\<rparr>)
      | Some (Inr x, w1) \<Rightarrow> Some (Inr x, w1))"
  by (cases rule: io_cases[of "get_media_status (w_clip_input P)" w])
     (simp_all add: status_step_def)

section \<open>Properties of the watcher\<close>

lemma request_cases:
  obtains (blocks) "request request_type request_data req_id w = None"
  | (answered) r fs where
      "request request_type request_data req_id w =
         Some (r, w\<lparr>req_seq := req_seq w + 1,
                     sent := sent w @ [request_payload request_type request_data
                                         (next_request_id req_id w)],
                     inbox := fs\<rparr>)"
  by (cases "await_response request_type (next_request_id req_id w) (inbox w)")
     (auto simp: request_eq)

lemma hide_step_result:
  assumes "hide_step P elapsed hid w = Some (r, w')"
  shows "r = Inr (hid \<or> w_hide_delay_s P \<le> elapsed)"
proof (cases "\<not> hid \<and> w_hide_delay_s P \<le> elapsed")
  case True
  then show ?thesis using assms
    by (auto simp: hide_step_due split: option.splits sum.splits)
next
  case False
  then have "hid \<or> elapsed < w_hide_delay_s P" by auto
  from hide_step_not_due[OF this] assms False show ?thesis by auto
qed

lemma is_hide_payload:
  "is_hide (request_payload ''SetSceneItemEnabled'' (Some (hide_data P)) rid)"
  by (simp add: is_hide_def payload_field_def request_payload_def dict_get_def hide_data_def)

lemma not_is_hide_media:
  "\<not> is_hide (request_payload ''GetMediaInputStatus'' rd rid)"
  by (simp add: is_hide_def payload_field_def request_payload_def dict_get_def)

lemma hide_step_sent:
  assumes "hide_step P elapsed hid w = Some (r, w')"
  shows "sent w' = sent w @
           (if \<not> hid \<and> w_hide_delay_s P \<le> elapsed
            then [request_payload ''SetSceneItemEnabled'' (Some (hide_data P))
                    (next_request_id ''hidePrev'' w)]
            else [])"
proof (cases "\<not> hid \<and> w_hide_delay_s P \<le> elapsed")
  case True
  show ?thesis
  proof (cases rule: request_cases[of "''SetSceneItemEnabled''" "Some (hide_data P)" "''hidePrev''" w])
    case blocks
    with True assms show ?thesis by (simp add: hide_step_due)
  next
    case (answered r0 fs)
    with True assms show ?thesis by (cases r0) (auto simp: hide_step_due)
  qed
next
  case False
  then have "hid \<or> elapsed < w_hide_delay_s P" by auto
  from hide_step_not_due[OF this] assms False show ?thesis by auto
qed

lemma get_media_status_world:
  assumes "get_media_status input_name w = Some (r, w')"
  shows "\<exists>r0. request ''GetMediaInputStatus'' (Some (JObj [(''inputName'', JStr input_name)]))
                 ''getMedia'' w = Some (r0, w') \<and> (\<forall>e. r0 = Inl e \<longrightarrow> r = Inl e)"
  using assms
  by (cases rule: io_cases[of "request ''GetMediaInputStatus''
         (Some (JObj [(''inputName'', JStr input_name)])) ''getMedia''" w])
     (auto simp: get_media_status_def bind_io_def Let_def split: sum.splits)

lemma get_media_status_sent:
  assumes "get_media_status input_name w = Some (r, w')"
  shows "sent w' = sent w @ [request_payload ''GetMediaInputStatus''
                               (Some (JObj [(''inputName'', JStr input_name)]))
                               (next_request_id ''getMedia'' w)]"
proof -
  from get_media_status_world[OF assms] obtain r0 where
    "request ''GetMediaInputStatus'' (Some (JObj [(''inputName'', JStr input_name)]))
       ''getMedia'' w = Some (r0, w')" by blast
  then show ?thesis
    by (cases rule: request_cases[of "''GetMediaInputStatus''"
          "Some (JObj [(''inputName'', JStr input_name)])" "''getMedia''" w]) auto
qed

lemma status_step_result:
  assumes "status_step P w = Some (r, w')"
  shows "\<exists>x. r = Inr x"
  using assms by (auto simp: status_step_eq split: option.splits sum.splits)

lemma status_step_sent:
  assumes "status_step P w = Some (r, w')"
  shows "sent w' = sent w @ [request_payload ''GetMediaInputStatus''
                               (Some (JObj [(''inputName'', JStr (w_clip_input P))]))
                               (next_request_id ''getMedia'' w)]"
  using assms get_media_status_sent[of "w_clip_input P" w]
  by (auto simp: status_step_eq split: option.splits sum.splits)

lemma in_active_states_Inl: "in_active_states state = Inl e \<Longrightarrow> e = TypeError"
  by (auto simp: in_active_states_def split: json.splits)

lemma hold_tick_unfold:
  assumes "hide_step P elapsed (hidden v) w = Some (Inr hid, w1)"
    and "status_step P w1 = Some (Inr (state, cursor, dur), w2)"
  shows "hold_tick P elapsed v w =
     (let w3 = (if state \<noteq> last_state v
                then w2\<lparr>stderr := stderr w2 @ [(DEBUG, ''mediaState='', None)]\<rparr> else w2)
      in case in_active_states state of
           Inl e \<Rightarrow> Some (Inl e, w3)
         | Inr act \<Rightarrow>
             Some (Inr (if fallback_s P \<le> elapsed then None
                        else Some \<lparr>hidden = hid, seen_active = (seen_active v \<or> act),
                                   last_state = state\<rparr>), w3))"
proof -
  have m: "max_s P \<le> elapsed \<Longrightarrow> fallback_s P \<le> elapsed"
    by (simp add: max_s_def)
  show ?thesis
    using assms m
    by (auto simp: hold_tick_def Let_def split: sum.splits)
qed

lemma hold_tick_cases:
  assumes "hold_tick P elapsed v w = Some (r, w')"
  obtains w1 w2 state cursor dur where
    "hide_step P elapsed (hidden v) w = Some (Inr (hidden v \<or> w_hide_delay_s P \<le> elapsed), w1)"
    "status_step P w1 = Some (Inr (state, cursor, dur), w2)"
proof (cases rule: io_cases[of "hide_step P elapsed (hidden v)" w])
  case blocks
  with assms show ?thesis by (simp add: hold_tick_def)
next
  case (raises e w1)
  with hide_step_result[OF this] show ?thesis by simp
next
  case (returns hid w1)
  note h = this
  from hide_step_result[OF h] have hid: "hid = (hidden v \<or> w_hide_delay_s P \<le> elapsed)" by simp
  show ?thesis
  proof (cases rule: io_cases[of "status_step P" w1])
    case blocks
    with assms h show ?thesis by (simp add: hold_tick_def)
  next
    case (raises e w2)
    with status_step_result[OF this] show ?thesis by simp
  next
    case (returns x w2)
    obtain state cursor dur where "x = (state, cursor, dur)" by (cases x)
    with returns h hid that show ?thesis by simp
  qed
qed

lemma hold_tick_result:
  assumes "hold_tick P elapsed v w = Some (r, w')"
  shows "r = Inl TypeError \<or> (r = Inr None \<and> fallback_s P \<le> elapsed) \<or>
         (\<exists>v'. r = Inr (Some v') \<and> elapsed < fallback_s P \<and>
               hidden v' = (hidden v \<or> w_hide_delay_s P \<le> elapsed))"
proof -
  from assms obtain w1 w2 state cursor dur where
    1: "hide_step P elapsed (hidden v) w = Some (Inr (hidden v \<or> w_hide_delay_s P \<le> elapsed), w1)"
    and 2: "status_step P w1 = Some (Inr (state, cursor, dur), w2)"
    by (rule hold_tick_cases)
  show ?thesis
    using assms in_active_states_Inl[of state]
    by (auto simp: hold_tick_unfold[OF 1 2] Let_def split: sum.splits if_splits)
qed

lemma hold_tick_hides:
  assumes "hold_tick P elapsed v w = Some (r, w')"
  shows "hides w' = hides w @
           (if \<not> hidden v \<and> w_hide_delay_s P \<le> elapsed
            then [request_payload ''SetSceneItemEnabled'' (Some (hide_data P))
                    (next_request_id ''hidePrev'' w)]
            else [])"
proof -
  from assms obtain w1 w2 state cursor dur where
    1: "hide_step P elapsed (hidden v) w = Some (Inr (hidden v \<or> w_hide_delay_s P \<le> elapsed), w1)"
    and 2: "status_step P w1 = Some (Inr (state, cursor, dur), w2)"
    by (rule hold_tick_cases)
  have "sent w' = sent w2"
    using assms by (auto simp: hold_tick_unfold[OF 1 2] Let_def split: sum.splits if_splits)
  then show ?thesis
    using hide_step_sent[OF 1] status_step_sent[OF 2]
    by (simp add: hides_def is_hide_payload not_is_hide_media)
qed


lemma hold_loop_hides:
  "hold_loop P t0 ticks v w = Some (r, left, w') \<Longrightarrow>
   \<exists>ys. hides w' = hides w @ ys \<and> length ys \<le> (if hidden v then 0 else 1) \<and>
        (ys \<noteq> [] \<longrightarrow> (\<exists>now\<in>set ticks. w_hide_delay_s P \<le> now - t0))"
proof (induction ticks arbitrary: v w)
  case Nil
  then show ?case by simp
next
  case (Cons now ticks)
  from Cons.prems obtain r1 w1 where t: "hold_tick P (now - t0) v w = Some (r1, w1)"
    by (auto split: option.splits)
  note h = hold_tick_hides[OF t]
  from hold_tick_result[OF t] consider
      (stop) "r1 = Inl TypeError \<or> r1 = Inr None"
    | (go) v' where "r1 = Inr (Some v')"
           "hidden v' = (hidden v \<or> w_hide_delay_s P \<le> now - t0)"
    by blast
  then show ?case
  proof cases
    case stop
    with Cons.prems t have "w' = w1" by auto
    with h show ?thesis by auto
  next
    case go
    with Cons.prems t have "hold_loop P t0 ticks v' w1 = Some (r, left, w')" by simp
    from Cons.IH[OF this] obtain ys where
      ys: "hides w' = hides w1 @ ys" "length ys \<le> (if hidden v' then 0 else 1)"
          "ys \<noteq> [] \<longrightarrow> (\<exists>n\<in>set ticks. w_hide_delay_s P \<le> n - t0)"
      by blast
    show ?thesis
    proof (cases "\<not> hidden v \<and> w_hide_delay_s P \<le> now - t0")
      case True
      with go ys have "ys = []" by simp
      with True h ys show ?thesis by simp
    next
      case False
      with h have "hides w1 = hides w" by simp
      with ys go False show ?thesis by (intro exI[of _ ys]) auto
    qed
  qed
qed









lemma fallback_s_eq: "fallback_s P = of_int (w_fallback_duration_ms P) / 1000 + 15 / 100"
  by (simp add: fallback_s_def pad_s_def)




lemma set_scene_item_enabled_Inl:
  "set_scene_item_enabled s i b rid w = Some (Inl e, w1) \<Longrightarrow>
   request ''SetSceneItemEnabled''
     (Some (JObj [(''sceneName'', JStr s), (''sceneItemId'', JInt i), (''sceneItemEnabled'', JBool b)]))
     rid w = Some (Inl e, w1)"
  by (cases rule: io_cases[of "request ''SetSceneItemEnabled''
        (Some (JObj [(''sceneName'', JStr s), (''sceneItemId'', JInt i),
                     (''sceneItemEnabled'', JBool b)])) rid" w])
     (simp_all add: set_scene_item_enabled_bind)




section \<open>The claims about the watcher\<close>



text \<open>
  Claim C7. In a run of the watcher the request that hides the background layer is sent
  at most once, and if it is sent, some tick had an elapsed time of at least the hide
  delay. A tick sends it exactly when \<open>hidden\<close> is still false and the elapsed time has
  reached the hide delay; \<open>hidden\<close> is true from then on and never goes back to false.
  When the request fails, the failure is printed and the step returns normally.
\<close>

theorem hide_issued_at_most_once:
  "(hold_until_clip_done_or_fallback P clock w = Some (r, left, w') \<longrightarrow>
      (\<exists>ys. hides w' = hides w @ ys \<and> length ys \<le> 1 \<and>
            (ys \<noteq> [] \<longrightarrow> (\<exists>now\<in>set (tl clock). w_hide_delay_s P \<le> now - hd clock)))) \<and>
   (hold_tick P elapsed v w = Some (r1, w1) \<longrightarrow>
      hides w1 = hides w @
        (if \<not> hidden v \<and> w_hide_delay_s P \<le> elapsed
         then [request_payload ''SetSceneItemEnabled'' (Some (hide_data P))
                 (next_request_id ''hidePrev'' w)]
         else []) \<and>
      (\<forall>v'. r1 = Inr (Some v') \<longrightarrow> hidden v' = (hidden v \<or> w_hide_delay_s P \<le> elapsed))) \<and>
   (\<not> hid \<and> w_hide_delay_s P \<le> elapsed \<and>
    set_scene_item_enabled (w_itstinks_scene P) (w_prev_scene_item_id P) False ''hidePrev'' w =
      Some (Inl e, w2) \<longrightarrow>
      hide_step P elapsed hid w =
        Some (Inr True, w2\<lparr>stderr := stderr w2 @ [(DEBUG, ''hide failed (ignored)'', Some e)]\<rparr>))"
proof (intro conjI impI)
  assume h: "hold_until_clip_done_or_fallback P clock w = Some (r, left, w')"
  then obtain t0 ticks where c: "clock = t0 # ticks"
    and l: "hold_loop P t0 ticks \<lparr>hidden = False, seen_active = False, last_state = JNull\<rparr> w =
            Some (r, left, w')"
    by (auto simp: hold_until_clip_done_or_fallback_def split: list.splits)
  from hold_loop_hides[OF l] c
  show "\<exists>ys. hides w' = hides w @ ys \<and> length ys \<le> 1 \<and>
            (ys \<noteq> [] \<longrightarrow> (\<exists>now\<in>set (tl clock). w_hide_delay_s P \<le> now - hd clock))"
    by auto
next
  assume t: "hold_tick P elapsed v w = Some (r1, w1)"
  from hold_tick_hides[OF t]
  show "hides w1 = hides w @
        (if \<not> hidden v \<and> w_hide_delay_s P \<le> elapsed
         then [request_payload ''SetSceneItemEnabled'' (Some (hide_data P))
                 (next_request_id ''hidePrev'' w)]
         else [])" .
  from hold_tick_result[OF t]
  show "\<forall>v'. r1 = Inr (Some v') \<longrightarrow> hidden v' = (hidden v \<or> w_hide_delay_s P \<le> elapsed)"
    by auto
next
  assume a: "\<not> hid \<and> w_hide_delay_s P \<le> elapsed \<and>
    set_scene_item_enabled (w_itstinks_scene P) (w_prev_scene_item_id P) False ''hidePrev'' w =
      Some (Inl e, w2)"
  then have "request ''SetSceneItemEnabled'' (Some (hide_data P)) ''hidePrev'' w = Some (Inl e, w2)"
    using set_scene_item_enabled_Inl[of "w_itstinks_scene P" "w_prev_scene_item_id P" False
        "''hidePrev''" w e w2]
    by (simp add: hide_data_def)
  with a show "hide_step P elapsed hid w =
        Some (Inr True, w2\<lparr>stderr := stderr w2 @ [(DEBUG, ''hide failed (ignored)'', Some e)]\<rparr>)"
    by (simp add: hide_step_due)
qed

theorem hide_issued_at_most_once_witness:
  "(\<exists>r left w' y now.
      hold_until_clip_done_or_fallback watch_ex clock_ex w_playing = Some (r, left, w') \<and>
      hides w' = hides w_playing @ [y] \<and> now \<in> set (tl clock_ex) \<and>
      w_hide_delay_s watch_ex \<le> now - hd clock_ex) \<and>
   (\<exists>w1. hold_tick watch_ex (1 / 2) \<lparr>hidden = False, seen_active = False, last_state = JNull\<rparr>
            w_hide_fails =
          Some (Inr (Some \<lparr>hidden = True, seen_active = True,
                           last_state = JStr ''OBS_WEBSOCKET_MEDIA_INPUT_STATE_PLAYING''\<rparr>), w1) \<and>
         length (hides w1) = 1) \<and>
   (\<exists>w2. hide_step watch_ex (1 / 2) False w_hide_fails =
          Some (Inr True, w2) \<and>
          stderr w2 = [(DEBUG, ''hide failed (ignored)'', Some (TransportError 1006))])"
proof -
  have "case hold_until_clip_done_or_fallback watch_ex clock_ex w_playing of
          None \<Rightarrow> False
        | Some (r, left, w') \<Rightarrow> length (hides w') = 1 \<and> hides w_playing = []"
    by code_simp
  then obtain r left w' where
    h: "hold_until_clip_done_or_fallback watch_ex clock_ex w_playing = Some (r, left, w')"
    and n: "length (hides w') = 1" "hides w_playing = []"
    by (auto split: option.splits)
  from hide_issued_at_most_once [THEN conjunct1, rule_format, OF h] n
  obtain ys where ys: "hides w' = hides w_playing @ ys" "length ys \<le> 1"
    "ys \<noteq> [] \<longrightarrow> (\<exists>now\<in>set (tl clock_ex). w_hide_delay_s watch_ex \<le> now - hd clock_ex)"
    by blast
  with n have "length ys = 1" by simp
  then obtain y where y: "ys = [y]" by (cases ys) auto
  with ys obtain now where "now \<in> set (tl clock_ex)" "w_hide_delay_s watch_ex \<le> now - hd clock_ex"
    by auto
  with h ys y have 1: "\<exists>r left w' y now.
      hold_until_clip_done_or_fallback watch_ex clock_ex w_playing = Some (r, left, w') \<and>
      hides w' = hides w_playing @ [y] \<and> now \<in> set (tl clock_ex) \<and>
      w_hide_delay_s watch_ex \<le> now - hd clock_ex"
    by blast
  let ?v = "\<lparr>hidden = False, seen_active = False, last_state = JNull\<rparr>"
  have "case hold_tick watch_ex (1 / 2) ?v w_hide_fails of
          None \<Rightarrow> False
        | Some (r, w1) \<Rightarrow>
            r = Inr (Some \<lparr>hidden = True, seen_active = True,
                           last_state = JStr ''OBS_WEBSOCKET_MEDIA_INPUT_STATE_PLAYING''\<rparr>)"
    by code_simp
  then obtain w1 where t: "hold_tick watch_ex (1 / 2) ?v w_hide_fails =
      Some (Inr (Some \<lparr>hidden = True, seen_active = True,
                       last_state = JStr ''OBS_WEBSOCKET_MEDIA_INPUT_STATE_PLAYING''\<rparr>), w1)"
    by (auto split: option.splits)
  have d: "w_hide_delay_s watch_ex \<le> 1 / 2" "hides w_hide_fails = []"
    by (simp_all add: watch_ex_def hides_def w_hide_fails_def)
  from hide_issued_at_most_once [THEN conjunct2, THEN conjunct1, rule_format, OF t] d
  have "length (hides w1) = 1" by simp
  with t have 2: "\<exists>w1. hold_tick watch_ex (1 / 2) ?v w_hide_fails =
          Some (Inr (Some \<lparr>hidden = True, seen_active = True,
                           last_state = JStr ''OBS_WEBSOCKET_MEDIA_INPUT_STATE_PLAYING''\<rparr>), w1) \<and>
         length (hides w1) = 1"
    by blast
  have "case set_scene_item_enabled (w_itstinks_scene watch_ex) (w_prev_scene_item_id watch_ex)
               False ''hidePrev'' w_hide_fails of
          None \<Rightarrow> False
        | Some (r, w2) \<Rightarrow> r = Inl (TransportError 1006) \<and> stderr w2 = []"
    by code_simp
  then obtain w2 where s: "set_scene_item_enabled (w_itstinks_scene watch_ex)
      (w_prev_scene_item_id watch_ex) False ''hidePrev'' w_hide_fails =
      Some (Inl (TransportError 1006), w2)" and e: "stderr w2 = []"
    by (auto split: option.splits)
  from hide_issued_at_most_once [THEN conjunct2, THEN conjunct2, rule_format,
      of False watch_ex "1 / 2" w_hide_fails "TransportError 1006" w2] s d(1)
  have "hide_step watch_ex (1 / 2) False w_hide_fails =
      Some (Inr True, w2\<lparr>stderr := stderr w2 @
              [(DEBUG, ''hide failed (ignored)'', Some (TransportError 1006))]\<rparr>)"
    by simp
  with e have 3: "\<exists>w2. hide_step watch_ex (1 / 2) False w_hide_fails = Some (Inr True, w2) \<and>
          stderr w2 = [(DEBUG, ''hide failed (ignored)'', Some (TransportError 1006))]"
    by simp
  from 1 2 3 show ?thesis by blast
qed

text \<open>
  Claim C9. On every tick a failure of the media status query is caught: the failure is
  printed, the tick goes on with state, cursor and duration all \<open>None\<close>, and neither the
  query step nor the tick raises because of it; the tick ends as any other, returning
  at the floor and going on to the next tick before it.
\<close>

theorem status_failure_is_swallowed:
  "(get_media_status (w_clip_input P) w = Some (Inl e, w1) \<longrightarrow>
      status_step P w =
        Some (Inr (JNull, None, None),
              w1\<lparr>stderr := stderr w1 @ [(DEBUG, ''GetMediaInputStatus failed (ignored)'', Some e)]\<rparr>)) \<and>
   (status_step P w = Some (r, w') \<longrightarrow> (\<exists>x. r = Inr x)) \<and>
   (hide_step P elapsed (hidden v) w = Some (Inr hid, w0) \<and>
    get_media_status (w_clip_input P) w0 = Some (Inl e, w1) \<longrightarrow>
      (\<exists>w2. hold_tick P elapsed v w =
         Some (Inr (if fallback_s P \<le> elapsed then None
                    else Some \<lparr>hidden = hid, seen_active = seen_active v, last_state = JNull\<rparr>),
               w2)))"
proof (intro conjI impI)
  assume "get_media_status (w_clip_input P) w = Some (Inl e, w1)"
  then show "status_step P w =
        Some (Inr (JNull, None, None),
              w1\<lparr>stderr := stderr w1 @ [(DEBUG, ''GetMediaInputStatus failed (ignored)'', Some e)]\<rparr>)"
    by (simp add: status_step_eq)
next
  assume "status_step P w = Some (r, w')"
  then show "\<exists>x. r = Inr x" by (rule status_step_result)
next
  assume a: "hide_step P elapsed (hidden v) w = Some (Inr hid, w0) \<and>
    get_media_status (w_clip_input P) w0 = Some (Inl e, w1)"
  then have 1: "hide_step P elapsed (hidden v) w = Some (Inr hid, w0)"
    and 2: "status_step P w0 = Some (Inr (JNull, None, None),
              w1\<lparr>stderr := stderr w1 @ [(DEBUG, ''GetMediaInputStatus failed (ignored)'', Some e)]\<rparr>)"
    by (simp_all add: status_step_eq)
  show "\<exists>w2. hold_tick P elapsed v w =
         Some (Inr (if fallback_s P \<le> elapsed then None
                    else Some \<lparr>hidden = hid, seen_active = seen_active v, last_state = JNull\<rparr>),
               w2)"
    by (simp add: hold_tick_unfold[OF 1 2] Let_def in_active_states_def)
qed

theorem status_failure_is_swallowed_witness:
  "(\<exists>e w1. get_media_status (w_clip_input watch_ex) w_closed = Some (Inl e, w1) \<and>
      status_step watch_ex w_closed =
        Some (Inr (JNull, None, None),
              w1\<lparr>stderr := stderr w1 @ [(DEBUG, ''GetMediaInputStatus failed (ignored)'', Some e)]\<rparr>)) \<and>
   (\<exists>w2. hold_tick watch_ex (1 / 4) \<lparr>hidden = False, seen_active = True, last_state = JNull\<rparr>
            w_closed =
          Some (Inr (Some \<lparr>hidden = False, seen_active = True, last_state = JNull\<rparr>), w2))"
proof -
  let ?v = "\<lparr>hidden = False, seen_active = True, last_state = JNull\<rparr>"
  have "case get_media_status (w_clip_input watch_ex) w_closed of
          None \<Rightarrow> False
        | Some (r, w1) \<Rightarrow> r = Inl (TransportError 1006)"
    by code_simp
  then obtain w1 where
    g: "get_media_status (w_clip_input watch_ex) w_closed = Some (Inl (TransportError 1006), w1)"
    by (auto split: option.splits)
  note A = status_failure_is_swallowed [THEN conjunct1, rule_format, OF g]
  have h: "hide_step watch_ex (1 / 4) (hidden ?v) w_closed = Some (Inr False, w_closed)"
    by (simp add: hide_step_def watch_ex_def)
  have f: "\<not> fallback_s watch_ex \<le> 1 / 4"
    by (simp add: fallback_s_eq watch_ex_def)
  from status_failure_is_swallowed [THEN conjunct2, THEN conjunct2, rule_format,
      of watch_ex "1 / 4" ?v w_closed False w_closed "TransportError 1006" w1] h g f
  have B: "\<exists>w2. hold_tick watch_ex (1 / 4) ?v w_closed =
      Some (Inr (Some \<lparr>hidden = False, seen_active = True, last_state = JNull\<rparr>), w2)"
    by simp
  from g A B show ?thesis by blast
qed



end
